theory Spec2Isabelle
  imports Main "HOL-Library.Sublist"
begin

section \<open>Data model: remote resource handles and thread messages\<close>

text \<open>
  The notebook \<^verbatim>\<open>05-azure-ai-agent.ipynb\<close> only holds handles of remote resources and
  reads one attribute of each, its \<^verbatim>\<open>id\<close>. Each handle is a datatype with that
  attribute as its selector.
\<close>

datatype file_purpose = AGENTS

datatype author_role = USER | ASSISTANT

datatype uploaded_file = UploadedFile (file_id: string)

datatype vector_store = VectorStore (store_id: string)

datatype agent_definition = AgentDefinition (agent_id: string)

datatype thread = Thread (thread_id: string)

datatype run = Run (run_status: string)

datatype tool = FileSearchTool "string list"

type_synonym toolset = "tool list"

text \<open>
  The message list comes back as nested dictionaries. The code reads the keys
  \<^verbatim>\<open>data\<close>, \<^verbatim>\<open>content\<close>, \<^verbatim>\<open>type\<close>, \<^verbatim>\<open>text\<close> and \<^verbatim>\<open>value\<close>; a key that
  may be absent is an \<open>option\<close>. The role of a message is carried but never read.
\<close>

datatype text_payload = TextPayload (payload_value: "string option")

datatype content_block =
  ContentBlock (block_type: "string option") (block_text: "text_payload option")

datatype message = Message (msg_role: author_role) (msg_content: "content_block list option")

datatype message_page = MessagePage (page_data: "message list option")

datatype error = RemoteError string | KeyError string

section \<open>Prompt Augmenter\<close>

definition nl :: string where
  "nl = [CHR 0x0A]"

definition apostrophe :: string where
  "apostrophe = [CHR 0x27]"

definition fallback_instruction :: string where
  "fallback_instruction =
     ''IMPORTANT: Answer ONLY based on the above context. If the context does not provide enough information, respond with ''
     @ apostrophe @ ''Insufficient context provided.'' @ apostrophe"

text \<open>
  \<^verbatim>\<open>
  def build_augmented_prompt(query: str, retrieval_context: str) -> str:
      return (
          f"Retrieved Context:\n{retrieval_context}\n\n"
          f"User Query: {query}\n\n"
          "IMPORTANT: Answer ONLY based on the above context. ..."
      )
  \<close>
\<close>

definition build_augmented_prompt :: "string \<Rightarrow> string \<Rightarrow> string" where
  "build_augmented_prompt query retrieval_context =
     (''Retrieved Context:'' @ nl @ retrieval_context @ nl @ nl)
     @ (''User Query: '' @ query @ nl @ nl)
     @ fallback_instruction"

section \<open>The remote service and the observable world\<close>

text \<open>
  Every remote operation is a call on a client object. The service behind the clients is
  not part of the notebook: it is a parameter, an arbitrary deterministic machine over a
  state \<open>'s\<close>. Each operation either raises (\<open>Inl\<close>) or returns a handle (\<open>Inr\<close>), and may
  change the remote state either way.
\<close>

record 's service =
  upload_file_and_poll :: "string \<Rightarrow> file_purpose \<Rightarrow> 's \<Rightarrow> (error + uploaded_file) \<times> 's"
  create_vector_store_and_poll :: "string list \<Rightarrow> string \<Rightarrow> 's \<Rightarrow> (error + vector_store) \<times> 's"
  create_agent :: "string \<Rightarrow> string \<Rightarrow> string \<Rightarrow> toolset \<Rightarrow> 's \<Rightarrow> (error + agent_definition) \<times> 's"
  create_thread :: "'s \<Rightarrow> (error + thread) \<times> 's"
  create_message :: "string \<Rightarrow> author_role \<Rightarrow> string \<Rightarrow> 's \<Rightarrow> (error + message) \<times> 's"
  create_and_process_run :: "string \<Rightarrow> string \<Rightarrow> 's \<Rightarrow> (error + run) \<times> 's"
  list_messages :: "string \<Rightarrow> 's \<Rightarrow> (error + message_page) \<times> 's"
  delete_thread :: "string \<Rightarrow> 's \<Rightarrow> (error + unit) \<times> 's"
  delete_agent :: "string \<Rightarrow> 's \<Rightarrow> (error + unit) \<times> 's"
  delete_file :: "string \<Rightarrow> 's \<Rightarrow> (error + unit) \<times> 's"
  delete_vector_store :: "string \<Rightarrow> 's \<Rightarrow> (error + unit) \<times> 's"

text \<open>
  What an execution does is observed as the sequence of remote calls it issues, each with
  its outcome, and the lines it prints.
\<close>

datatype call =
    UploadFileAndPoll string file_purpose
  | CreateVectorStoreAndPoll "string list" string
  | CreateAgent string string string toolset
  | CreateThread
  | CreateMessage string author_role string
  | CreateAndProcessRun string string
  | ListMessages string
  | DeleteThread string
  | DeleteAgent string
  | DeleteFile string
  | DeleteVectorStore string

datatype outcome = Returned | Raised error

type_synonym event = "call \<times> outcome"

record 's world =
  trace :: "event list"
  stdout :: "string list"
  remote :: 's

definition outcome_of :: "error + 'a \<Rightarrow> outcome" where
  "outcome_of r = (case r of Inl e \<Rightarrow> Raised e | Inr _ \<Rightarrow> Returned)"

definition invoke ::
  "call \<Rightarrow> ('s \<Rightarrow> (error + 'a) \<times> 's) \<Rightarrow> 's world \<Rightarrow> (error + 'a) \<times> 's world" where
  "invoke c f w =
     (case f (remote w) of
        (r, s') \<Rightarrow> (r, w\<lparr>trace := trace w @ [(c, outcome_of r)], remote := s'\<rparr>))"

definition print_line :: "string \<Rightarrow> 's world \<Rightarrow> 's world" where
  "print_line line w = w\<lparr>stdout := stdout w @ [line]\<rparr>"

definition issued_by :: "('s world \<Rightarrow> 'r \<times> 's world) \<Rightarrow> 's world \<Rightarrow> event list" where
  "issued_by f w = drop (length (trace w)) (trace (snd (f w)))"

definition printed_by :: "('s world \<Rightarrow> 'r \<times> 's world) \<Rightarrow> 's world \<Rightarrow> string list" where
  "printed_by f w = drop (length (stdout w)) (stdout (snd (f w)))"

fun is_deletion :: "call \<Rightarrow> bool" where
  "is_deletion (DeleteThread _) = True"
| "is_deletion (DeleteAgent _) = True"
| "is_deletion (DeleteFile _) = True"
| "is_deletion (DeleteVectorStore _) = True"
| "is_deletion _ = False"

fun is_creation :: "call \<Rightarrow> bool" where
  "is_creation (UploadFileAndPoll _ _) = True"
| "is_creation (CreateVectorStoreAndPoll _ _) = True"
| "is_creation (CreateAgent _ _ _ _) = True"
| "is_creation CreateThread = True"
| "is_creation _ = False"

fun is_append :: "call \<Rightarrow> bool" where
  "is_append (CreateMessage _ _ _) = True"
| "is_append _ = False"

fun is_run :: "call \<Rightarrow> bool" where
  "is_run (CreateAndProcessRun _ _) = True"
| "is_run _ = False"

definition deletions :: "event list \<Rightarrow> event list" where
  "deletions evs = filter (\<lambda>ev. is_deletion (fst ev)) evs"

definition appends :: "event list \<Rightarrow> event list" where
  "appends evs = filter (\<lambda>ev. is_append (fst ev)) evs"

definition runs :: "event list \<Rightarrow> event list" where
  "runs evs = filter (\<lambda>ev. is_run (fst ev)) evs"

definition created_resources :: "event list \<Rightarrow> call list" where
  "created_resources evs =
     map fst (filter (\<lambda>ev. is_creation (fst ev) \<and> snd ev = Returned) evs)"

section \<open>Resource Provisioner and tool set\<close>

text \<open>
  \<^verbatim>\<open>
  uploaded_file = project_client.agents.upload_file_and_poll(
      file_path="document.md", purpose=FilePurpose.AGENTS)
  print(f"Uploaded file, file ID: {uploaded_file.id}")
  vector_store = project_client.agents.create_vector_store_and_poll(
      file_ids=[uploaded_file.id], name="vector_store")
  print(f"Created vector store, vector store ID: {vector_store.id}")
  \<close>
\<close>

definition provision ::
  "'s service \<Rightarrow> 's world \<Rightarrow> (error + uploaded_file \<times> vector_store) \<times> 's world" where
  "provision project_client w0 =
     (case invoke (UploadFileAndPoll ''document.md'' AGENTS)
             (upload_file_and_poll project_client ''document.md'' AGENTS) w0 of
        (Inl e, w1) \<Rightarrow> (Inl e, w1)
      | (Inr uploaded, w1) \<Rightarrow>
          (let w2 = print_line (''Uploaded file, file ID: '' @ file_id uploaded) w1 in
           case invoke (CreateVectorStoreAndPoll [file_id uploaded] ''vector_store'')
                  (create_vector_store_and_poll project_client [file_id uploaded] ''vector_store'') w2 of
             (Inl e, w3) \<Rightarrow> (Inl e, w3)
           | (Inr store, w3) \<Rightarrow>
               (Inr (uploaded, store),
                print_line (''Created vector store, vector store ID: '' @ store_id store) w3)))"

text \<open>
  \<^verbatim>\<open>
  file_search_tool = FileSearchTool(vector_store_ids=[vector_store.id])
  toolset = ToolSet()
  toolset.add(file_search_tool)
  \<close>
\<close>

definition bind_tools :: "vector_store \<Rightarrow> toolset" where
  "bind_tools store = [] @ [FileSearchTool [store_id store]]"

section \<open>Query Driver\<close>

definition py_str :: "string option \<Rightarrow> string" where
  "py_str v = (case v of None \<Rightarrow> ''None'' | Some s \<Rightarrow> s)"

text \<open>
  The loop over the content blocks of the first message:
  \<^verbatim>\<open>
  for content in first_msg.get("content", []):
      if content.get("type") == "text":
          print("Text:", content["text"].get("value"))
  \<close>
  The subscript \<^verbatim>\<open>content["text"]\<close> raises \<^verbatim>\<open>KeyError\<close> when the key is absent;
  \<^verbatim>\<open>.get("value")\<close> gives \<^verbatim>\<open>None\<close>, which prints as \<^verbatim>\<open>None\<close>.
\<close>

fun print_text_blocks :: "content_block list \<Rightarrow> 's world \<Rightarrow> (error + unit) \<times> 's world" where
  "print_text_blocks [] w = (Inr (), w)"
| "print_text_blocks (content # rest) w =
     (if block_type content = Some ''text'' then
        (case block_text content of
           None \<Rightarrow> (Inl (KeyError ''text''), w)
         | Some t \<Rightarrow>
             print_text_blocks rest (print_line (''Text: '' @ py_str (payload_value t)) w))
      else print_text_blocks rest w)"

definition separator_line :: string where
  "separator_line = nl @ replicate 60 (CHR ''='') @ nl"

text \<open>
  \<^verbatim>\<open>
  async def process_query(project_client, agent, thread_id: str, user_query: str):
      print(f"\nProcessing query: {user_query}")
      message = project_client.agents.create_message(
          thread_id=thread_id, role=AuthorRole.USER, content=user_query)
      run = project_client.agents.create_and_process_run(
          thread_id=thread_id, assistant_id=agent.id)
      messages = project_client.agents.list_messages(thread_id=thread_id)
      print("Responses:")
      main_data = messages.get('data', [])
      if main_data:
          first_msg = main_data[0]
          for content in first_msg.get("content", []): ...
      print("\n" + "="*60 + "\n")
  \<close>
  The values bound to \<^verbatim>\<open>message\<close> and \<^verbatim>\<open>run\<close> are never read.
\<close>

definition process_query ::
  "'s service \<Rightarrow> agent_definition \<Rightarrow> string \<Rightarrow> string \<Rightarrow> 's world \<Rightarrow> (error + unit) \<times> 's world" where
  "process_query project_client agent tid user_query w0 =
     (let w1 = print_line (nl @ ''Processing query: '' @ user_query) w0 in
      case invoke (CreateMessage tid USER user_query)
             (create_message project_client tid USER user_query) w1 of
        (Inl e, w2) \<Rightarrow> (Inl e, w2)
      | (Inr msg, w2) \<Rightarrow>
      (case invoke (CreateAndProcessRun tid (agent_id agent))
              (create_and_process_run project_client tid (agent_id agent)) w2 of
        (Inl e, w3) \<Rightarrow> (Inl e, w3)
      | (Inr rn, w3) \<Rightarrow>
      (case invoke (ListMessages tid) (list_messages project_client tid) w3 of
        (Inl e, w4) \<Rightarrow> (Inl e, w4)
      | (Inr messages, w4) \<Rightarrow>
          (let w5 = print_line ''Responses:'' w4;
               main_data = (case page_data messages of None \<Rightarrow> [] | Some d \<Rightarrow> d)
           in case (case main_data of
                      [] \<Rightarrow> (Inr (), w5)
                    | first_msg # _ \<Rightarrow>
                        print_text_blocks
                          (case msg_content first_msg of None \<Rightarrow> [] | Some cs \<Rightarrow> cs) w5) of
                (Inl e, w6) \<Rightarrow> (Inl e, w6)
              | (Inr _, w6) \<Rightarrow> (Inr (), print_line separator_line w6)))))"

section \<open>Lifecycle Controller\<close>

text \<open>
  The loop \<^verbatim>\<open>for user_query in user_inputs: await process_query(...)\<close>: an exception
  leaves the loop at once.
\<close>

fun run_queries ::
  "'s service \<Rightarrow> agent_definition \<Rightarrow> string \<Rightarrow> string list \<Rightarrow> 's world \<Rightarrow> (error + unit) \<times> 's world" where
  "run_queries project_client agent tid [] w = (Inr (), w)"
| "run_queries project_client agent tid (user_query # rest) w =
     (case process_query project_client agent tid user_query w of
        (Inl e, w') \<Rightarrow> (Inl e, w')
      | (Inr _, w') \<Rightarrow> run_queries project_client agent tid rest w')"

text \<open>
  The body of the \<^verbatim>\<open>finally\<close> clause:
  \<^verbatim>\<open>
  await client.agents.delete_thread(thread.id)
  await client.agents.delete_agent(agent.id)
  project_client.agents.delete_file(uploaded_file.id)
  project_client.agents.delete_vector_store(vector_store.id)
  print("\nCleaned up agent, thread, file, and vector store.")
  \<close>
\<close>

definition teardown ::
  "'s service \<Rightarrow> 's service \<Rightarrow> agent_definition \<Rightarrow> thread \<Rightarrow> uploaded_file \<Rightarrow> vector_store
     \<Rightarrow> 's world \<Rightarrow> (error + unit) \<times> 's world" where
  "teardown client project_client agent thr uploaded store w0 =
     (case invoke (DeleteThread (thread_id thr)) (delete_thread client (thread_id thr)) w0 of
        (Inl e, w1) \<Rightarrow> (Inl e, w1)
      | (Inr _, w1) \<Rightarrow>
      (case invoke (DeleteAgent (agent_id agent)) (delete_agent client (agent_id agent)) w1 of
        (Inl e, w2) \<Rightarrow> (Inl e, w2)
      | (Inr _, w2) \<Rightarrow>
      (case invoke (DeleteFile (file_id uploaded)) (delete_file project_client (file_id uploaded)) w2 of
        (Inl e, w3) \<Rightarrow> (Inl e, w3)
      | (Inr _, w3) \<Rightarrow>
      (case invoke (DeleteVectorStore (store_id store))
              (delete_vector_store project_client (store_id store)) w3 of
        (Inl e, w4) \<Rightarrow> (Inl e, w4)
      | (Inr _, w4) \<Rightarrow>
          (Inr (), print_line (nl @ ''Cleaned up agent, thread, file, and vector store.'') w4)))))"

text \<open>
  \<^verbatim>\<open>try: body finally: handler\<close>. The handler runs after the body on every exit path; an
  exception of the handler replaces the outcome of the body, otherwise the outcome of the
  body stands.
\<close>

definition try_finally ::
  "('w \<Rightarrow> (error + 'a) \<times> 'w) \<Rightarrow> ('w \<Rightarrow> (error + unit) \<times> 'w) \<Rightarrow> 'w \<Rightarrow> (error + 'a) \<times> 'w" where
  "try_finally body handler w =
     (case body w of
        (r, w1) \<Rightarrow>
          (case handler w1 of
             (Inl e, w2) \<Rightarrow> (Inl e, w2)
           | (Inr _, w2) \<Rightarrow> (r, w2)))"

definition query_loop ::
  "'s service \<Rightarrow> 's service \<Rightarrow> agent_definition \<Rightarrow> thread \<Rightarrow> uploaded_file \<Rightarrow> vector_store
     \<Rightarrow> string list \<Rightarrow> 's world \<Rightarrow> (error + unit) \<times> 's world" where
  "query_loop client project_client agent thr uploaded store user_inputs =
     try_finally
       (run_queries project_client agent (thread_id thr) user_inputs)
       (teardown client project_client agent thr uploaded store)"

definition AGENT_NAME :: string where
  "AGENT_NAME = ''RAGAgent''"

definition AGENT_INSTRUCTIONS :: string where
  "AGENT_INSTRUCTIONS =
     ''You are an AI assistant that provides accurate information based on the provided context. ''
     @ ''Only use information from the retrieved context to answer questions. ''
     @ ''If the context doesn'' @ apostrophe @ ''t contain relevant information, clearly state that. ''
     @ ''Provide concise and accurate responses.''"

definition user_inputs :: "string list" where
  "user_inputs =
     [''Can you explain Contoso'' @ apostrophe @ ''s travel insurance coverage?'',
      ''What is Neural Network?'']"

text \<open>
  \<^verbatim>\<open>main\<close>, with the list of queries as a parameter; the notebook runs it on
  \<open>user_inputs\<close>. The globals \<^verbatim>\<open>project_client\<close>, \<^verbatim>\<open>toolset\<close>, \<^verbatim>\<open>uploaded_file\<close> and
  \<^verbatim>\<open>vector_store\<close> of the earlier cells are parameters too. Building the
  \<^verbatim>\<open>AzureAIAgent\<close> object and registering the \<^verbatim>\<open>PromptPlugin\<close> with its kernel are local
  steps: they issue no remote call and print nothing. The two clients, \<^verbatim>\<open>client\<close> of the
  \<^verbatim>\<open>async with\<close> block and the global \<^verbatim>\<open>project_client\<close>, are two views of the one remote
  state. Opening and closing the client context and the credential are outside the model.
\<close>

definition main_on ::
  "'s service \<Rightarrow> 's service \<Rightarrow> toolset \<Rightarrow> uploaded_file \<Rightarrow> vector_store \<Rightarrow> string list
     \<Rightarrow> 's world \<Rightarrow> (error + unit) \<times> 's world" where
  "main_on client project_client tools uploaded store queries w0 =
     (case invoke (CreateAgent ''gpt-4o-mini'' AGENT_NAME AGENT_INSTRUCTIONS tools)
             (create_agent client ''gpt-4o-mini'' AGENT_NAME AGENT_INSTRUCTIONS tools) w0 of
        (Inl e, w1) \<Rightarrow> (Inl e, w1)
      | (Inr agent, w1) \<Rightarrow>
      (case invoke CreateThread (create_thread client) w1 of
        (Inl e, w2) \<Rightarrow> (Inl e, w2)
      | (Inr thr, w2) \<Rightarrow>
          query_loop client project_client agent thr uploaded store queries
            (print_line (''Created thread, thread ID: '' @ thread_id thr) w2)))"

definition main ::
  "'s service \<Rightarrow> 's service \<Rightarrow> toolset \<Rightarrow> uploaded_file \<Rightarrow> vector_store
     \<Rightarrow> 's world \<Rightarrow> (error + unit) \<times> 's world" where
  "main client project_client tools uploaded store =
     main_on client project_client tools uploaded store user_inputs"

section \<open>Expected call sequences\<close>

text \<open>The three calls of one query that runs without a remote error.\<close>

definition query_calls :: "string \<Rightarrow> string \<Rightarrow> string \<Rightarrow> call list" where
  "query_calls tid aid q =
     [CreateMessage tid USER q, CreateAndProcessRun tid aid, ListMessages tid]"

definition query_events :: "string \<Rightarrow> string \<Rightarrow> string \<Rightarrow> event list" where
  "query_events tid aid q = map (\<lambda>c. (c, Returned)) (query_calls tid aid q)"

text \<open>The four deletions of the teardown, in the order of the \<^verbatim>\<open>finally\<close> clause.\<close>

definition teardown_calls ::
  "agent_definition \<Rightarrow> thread \<Rightarrow> uploaded_file \<Rightarrow> vector_store \<Rightarrow> call list" where
  "teardown_calls agent thr uploaded store =
     [DeleteThread (thread_id thr), DeleteAgent (agent_id agent),
      DeleteFile (file_id uploaded), DeleteVectorStore (store_id store)]"

text \<open>
  Calls issued one after the other, each only when the one before it has returned: the
  events are those of an initial, non-empty part of the calls, every event but the last
  has returned, and the part is the whole list unless its last call raised.
\<close>

fun stops_at_first_raise :: "call list \<Rightarrow> event list \<Rightarrow> bool" where
  "stops_at_first_raise (c # cs) [(d, Returned)] = (d = c \<and> cs = [])"
| "stops_at_first_raise (c # cs) ((d, Returned) # evs) = (d = c \<and> stops_at_first_raise cs evs)"
| "stops_at_first_raise (c # cs) ((d, Raised e) # evs) = (d = c \<and> evs = [])"
| "stops_at_first_raise _ _ = False"

text \<open>The text lines the Query Driver prints for the content blocks of a message.\<close>

definition is_text_block :: "content_block \<Rightarrow> bool" where
  "is_text_block b = (block_type b = Some ''text'')"

definition has_payload :: "content_block \<Rightarrow> bool" where
  "has_payload b = (block_text b \<noteq> None)"

definition text_line :: "content_block \<Rightarrow> string" where
  "text_line b =
     ''Text: '' @ (case block_text b of None \<Rightarrow> [] | Some t \<Rightarrow> py_str (payload_value t))"

definition first_content :: "message_page \<Rightarrow> content_block list" where
  "first_content page =
     (case page_data page of
        None \<Rightarrow> []
      | Some [] \<Rightarrow> []
      | Some (m # _) \<Rightarrow> (case msg_content m of None \<Rightarrow> [] | Some cs \<Rightarrow> cs))"

section \<open>A test double of the remote service\<close>

text \<open>
  A deterministic stand-in for the remote service, used to run the notebook on concrete
  inputs. Its state is the message list of the one thread, newest first. \<open>fails\<close> says
  which calls raise in which state; \<open>reply\<close> gives the messages a run adds.
\<close>

definition text_block :: "string \<Rightarrow> content_block" where
  "text_block s = ContentBlock (Some ''text'') (Some (TextPayload (Some s)))"

definition guarded ::
  "(call \<Rightarrow> message list \<Rightarrow> bool) \<Rightarrow> call \<Rightarrow> 'a \<Rightarrow> (message list \<Rightarrow> message list)
     \<Rightarrow> message list \<Rightarrow> (error + 'a) \<times> message list" where
  "guarded fails c result effect s =
     (if fails c s then (Inl (RemoteError ''service error''), s) else (Inr result, effect s))"

definition fake_service ::
  "(call \<Rightarrow> message list \<Rightarrow> bool) \<Rightarrow> (message list \<Rightarrow> message list) \<Rightarrow> message list service" where
  "fake_service fails reply =
     \<lparr> upload_file_and_poll = (\<lambda>path purpose.
         guarded fails (UploadFileAndPoll path purpose) (UploadedFile ''file_1'') (\<lambda>s. s)),
       create_vector_store_and_poll = (\<lambda>ids name.
         guarded fails (CreateVectorStoreAndPoll ids name) (VectorStore ''vs_1'') (\<lambda>s. s)),
       create_agent = (\<lambda>model name instructions tools.
         guarded fails (CreateAgent model name instructions tools) (AgentDefinition ''agent_1'') (\<lambda>s. s)),
       create_thread = guarded fails CreateThread (Thread ''thread_1'') (\<lambda>s. []),
       create_message = (\<lambda>tid role content.
         guarded fails (CreateMessage tid role content) (Message role (Some [text_block content]))
           (\<lambda>s. Message role (Some [text_block content]) # s)),
       create_and_process_run = (\<lambda>tid aid.
         guarded fails (CreateAndProcessRun tid aid) (Run ''completed'') (\<lambda>s. reply s @ s)),
       list_messages = (\<lambda>tid s.
         guarded fails (ListMessages tid) (MessagePage (Some s)) (\<lambda>s. s) s),
       delete_thread = (\<lambda>tid. guarded fails (DeleteThread tid) () (\<lambda>s. s)),
       delete_agent = (\<lambda>aid. guarded fails (DeleteAgent aid) () (\<lambda>s. s)),
       delete_file = (\<lambda>fid. guarded fails (DeleteFile fid) () (\<lambda>s. s)),
       delete_vector_store = (\<lambda>vid. guarded fails (DeleteVectorStore vid) () (\<lambda>s. s)) \<rparr>"

definition never :: "call \<Rightarrow> message list \<Rightarrow> bool" where
  "never c s = False"

definition canned :: "string list \<Rightarrow> message list \<Rightarrow> message list" where
  "canned texts s = [Message ASSISTANT (Some (map text_block texts))]"

definition silent :: "message list \<Rightarrow> message list" where
  "silent s = []"

definition start :: "message list world" where
  "start = \<lparr>trace = [], stdout = [], remote = []\<rparr>"

text \<open>
  Failure scripts: one named call raises; the run raises when the newest message of the
  thread is a given query; either of two scripts.
\<close>

definition raises_on :: "call \<Rightarrow> call \<Rightarrow> message list \<Rightarrow> bool" where
  "raises_on bad c s = (c = bad)"

definition run_raises_on :: "string \<Rightarrow> call \<Rightarrow> message list \<Rightarrow> bool" where
  "run_raises_on q c s =
     (is_run c \<and> (case s of [] \<Rightarrow> False | m # _ \<Rightarrow> m = Message USER (Some [text_block q])))"

definition either ::
  "(call \<Rightarrow> message list \<Rightarrow> bool) \<Rightarrow> (call \<Rightarrow> message list \<Rightarrow> bool) \<Rightarrow> call \<Rightarrow> message list \<Rightarrow> bool" where
  "either f g c s = (f c s \<or> g c s)"

definition picture :: "message list \<Rightarrow> message list" where
  "picture s = [Message ASSISTANT (Some [ContentBlock (Some ''image_file'') None])]"

definition agent1 :: agent_definition where
  "agent1 = AgentDefinition ''agent_1''"

definition thread1 :: thread where
  "thread1 = Thread ''thread_1''"

definition file1 :: uploaded_file where
  "file1 = UploadedFile ''file_1''"

definition store1 :: vector_store where
  "store1 = VectorStore ''vs_1''"

text \<open>
  A second test double, for the resources themselves: its state is the list of remote
  resources that exist, newest first. A creation adds the resource, a deletion removes
  the resource of the given id, and no call raises.
\<close>

datatype resource =
    FileResource string
  | StoreResource string "string list"
  | AgentResource string
  | ThreadResource string

fun resource_id :: "resource \<Rightarrow> string" where
  "resource_id (FileResource i) = i"
| "resource_id (StoreResource i _) = i"
| "resource_id (AgentResource i) = i"
| "resource_id (ThreadResource i) = i"

definition without :: "string \<Rightarrow> resource list \<Rightarrow> resource list" where
  "without i s = filter (\<lambda>r. resource_id r \<noteq> i) s"

definition registry_service :: "resource list service" where
  "registry_service =
     \<lparr> upload_file_and_poll = (\<lambda>path purpose s.
         (Inr (UploadedFile ''file_1''), FileResource ''file_1'' # s)),
       create_vector_store_and_poll = (\<lambda>ids name s.
         (Inr (VectorStore ''vs_1''), StoreResource ''vs_1'' ids # s)),
       create_agent = (\<lambda>model name instructions tools s.
         (Inr (AgentDefinition ''agent_1''), AgentResource ''agent_1'' # s)),
       create_thread = (\<lambda>s. (Inr (Thread ''thread_1''), ThreadResource ''thread_1'' # s)),
       create_message = (\<lambda>tid role content s.
         (Inr (Message role (Some [text_block content])), s)),
       create_and_process_run = (\<lambda>tid aid s. (Inr (Run ''completed''), s)),
       list_messages = (\<lambda>tid s. (Inr (MessagePage (Some [])), s)),
       delete_thread = (\<lambda>i s. (Inr (), without i s)),
       delete_agent = (\<lambda>i s. (Inr (), without i s)),
       delete_file = (\<lambda>i s. (Inr (), without i s)),
       delete_vector_store = (\<lambda>i s. (Inr (), without i s)) \<rparr>"

definition empty_registry :: "resource list world" where
  "empty_registry = \<lparr>trace = [], stdout = [], remote = []\<rparr>"

section \<open>Evaluation rules for concrete executions\<close>

text \<open>
  The defining equations of the notebook's functions and of the test double, for running
  them on concrete inputs by rewriting.
\<close>

lemmas program_simps =
  invoke_def outcome_of_def print_line_def issued_by_def printed_by_def process_query_def
  teardown_def try_finally_def query_loop_def deletions_def appends_def runs_def py_str_def
  teardown_calls_def query_calls_def query_events_def

lemmas double_simps =
  fake_service_def guarded_def never_def start_def agent1_def thread1_def file1_def store1_def
  text_block_def

section \<open>Calls, traces and printing: basic facts\<close>

lemma invoke_trace:
  "invoke c f w = (r, w') \<Longrightarrow>
     trace w' = trace w @ [(c, outcome_of r)] \<and> stdout w' = stdout w
     \<and> f (remote w) = (r, remote w')"
  by (auto simp: invoke_def split: prod.splits)

lemma print_line_simps [simp]:
  "trace (print_line l w) = trace w"
  "stdout (print_line l w) = stdout w @ [l]"
  "remote (print_line l w) = remote w"
  by (simp_all add: print_line_def)

lemma print_text_blocks_trace [simp]: "trace (snd (print_text_blocks bs w)) = trace w"
  by (induction bs arbitrary: w) (auto split: option.splits)

lemma print_text_blocks_remote [simp]: "remote (snd (print_text_blocks bs w)) = remote w"
  by (induction bs arbitrary: w) (auto split: option.splits)

lemma print_text_blocks_trace': "print_text_blocks bs w = (r, w') \<Longrightarrow> trace w' = trace w"
  using print_text_blocks_trace [of bs w] by simp

lemma teardown_issued:
  "stops_at_first_raise (teardown_calls agent thr uploaded store)
     (issued_by (teardown client pc agent thr uploaded store) w)"
  unfolding issued_by_def teardown_def teardown_calls_def
  by (auto simp: outcome_of_def split: prod.splits sum.splits dest!: invoke_trace)

lemma teardown_extends:
  "trace (snd (teardown client pc agent thr uploaded store w)) =
     trace w @ issued_by (teardown client pc agent thr uploaded store) w"
  unfolding issued_by_def teardown_def
  by (auto simp: outcome_of_def split: prod.splits sum.splits dest!: invoke_trace)

lemma process_query_shape:
  "\<exists>r w'. process_query pc agent tid q w = (r, w') \<and>
     ((\<exists>e. r = Inl e \<and> trace w' = trace w @ [(CreateMessage tid USER q, Raised e)])
    \<or> (\<exists>e. r = Inl e \<and> trace w' = trace w @
          [(CreateMessage tid USER q, Returned), (CreateAndProcessRun tid (agent_id agent), Raised e)])
    \<or> (\<exists>e. r = Inl e \<and> trace w' = trace w @
          [(CreateMessage tid USER q, Returned), (CreateAndProcessRun tid (agent_id agent), Returned),
           (ListMessages tid, Raised e)])
    \<or> (\<exists>e. r = Inl e \<and> trace w' = trace w @ query_events tid (agent_id agent) q)
    \<or> (r = Inr () \<and> trace w' = trace w @ query_events tid (agent_id agent) q))"
  unfolding process_query_def Let_def query_events_def query_calls_def
  by (auto simp: outcome_of_def split: prod.splits sum.splits list.splits option.splits
           dest!: invoke_trace print_text_blocks_trace')

lemma stops_Nil: "stops_at_first_raise [] evs = False"
  by simp

lemma stops_Cons:
  "stops_at_first_raise (c # cs) evs \<longleftrightarrow>
     (\<exists>e. evs = [(c, Raised e)])
     \<or> (evs = [(c, Returned)] \<and> cs = [])
     \<or> (\<exists>evs'. evs = (c, Returned) # evs' \<and> evs' \<noteq> [] \<and> stops_at_first_raise cs evs')"
  by (cases "(c # cs, evs)" rule: stops_at_first_raise.cases) auto

lemma stops_three:
  "stops_at_first_raise [c1, c2, c3] evs \<longleftrightarrow>
     (\<exists>e. evs = [(c1, Raised e)]) \<or> (\<exists>e. evs = [(c1, Returned), (c2, Raised e)])
     \<or> (\<exists>final. evs = [(c1, Returned), (c2, Returned), (c3, final)])"
  by (auto simp: stops_Cons stops_Nil) (metis outcome.exhaust)

lemma stops_four:
  "stops_at_first_raise [c1, c2, c3, c4] evs \<longleftrightarrow>
     (\<exists>e. evs = [(c1, Raised e)]) \<or> (\<exists>e. evs = [(c1, Returned), (c2, Raised e)])
     \<or> (\<exists>e. evs = [(c1, Returned), (c2, Returned), (c3, Raised e)])
     \<or> (\<exists>final. evs = [(c1, Returned), (c2, Returned), (c3, Returned), (c4, final)])"
  by (auto simp: stops_Cons stops_Nil) (metis outcome.exhaust)

lemma process_query_issued:
  "trace (snd (process_query pc agent tid q w)) = trace w @ issued_by (process_query pc agent tid q) w"
  using process_query_shape [of pc agent tid q w] by (auto simp: issued_by_def)

lemma process_query_stops:
  "stops_at_first_raise (query_calls tid (agent_id agent) q) (issued_by (process_query pc agent tid q) w)"
  using process_query_shape [of pc agent tid q w]
  by (auto simp: issued_by_def query_events_def query_calls_def)

lemma process_query_returns:
  "fst (process_query pc agent tid q w) = Inr u \<Longrightarrow>
     issued_by (process_query pc agent tid q) w = query_events tid (agent_id agent) q"
  using process_query_shape [of pc agent tid q w]
  by (auto simp: issued_by_def)

lemma run_queries_shape:
  "\<exists>r w' j tail. run_queries pc agent tid qs w = (r, w') \<and>
      trace w' = trace w @ concat (map (query_events tid (agent_id agent)) (take j qs)) @ tail \<and>
      ((r = Inr () \<and> j = length qs \<and> tail = []) \<or>
       (\<exists>e. r = Inl e \<and> j < length qs \<and>
          stops_at_first_raise (query_calls tid (agent_id agent) (qs ! j)) tail))"
proof (induction qs arbitrary: w)
  case Nil
  show ?case by simp
next
  case (Cons q qs)
  obtain r1 w1 where pq: "process_query pc agent tid q w = (r1, w1)"
    by (cases "process_query pc agent tid q w")
  have ext: "trace w1 = trace w @ issued_by (process_query pc agent tid q) w"
    using process_query_issued [of pc agent tid q w] pq by simp
  show ?case
  proof (cases r1)
    case (Inl e)
    have "stops_at_first_raise (query_calls tid (agent_id agent) ((q # qs) ! 0))
            (issued_by (process_query pc agent tid q) w)"
      using process_query_stops [of tid agent q pc w] by simp
    with pq Inl ext show ?thesis
      by (intro exI [where x = "Inl e"] exI [where x = w1] exI [where x = 0]
               exI [where x = "issued_by (process_query pc agent tid q) w"]) simp
  next
    case (Inr u)
    have iss: "issued_by (process_query pc agent tid q) w = query_events tid (agent_id agent) q"
      using process_query_returns [of pc agent tid q w u] pq Inr by simp
    from Cons.IH [of w1] obtain r w' j tail where
      rq: "run_queries pc agent tid qs w1 = (r, w')" and
      tr: "trace w' = trace w1 @ concat (map (query_events tid (agent_id agent)) (take j qs)) @ tail" and
      sh: "(r = Inr () \<and> j = length qs \<and> tail = []) \<or>
           (\<exists>e. r = Inl e \<and> j < length qs \<and>
              stops_at_first_raise (query_calls tid (agent_id agent) (qs ! j)) tail)"
      by blast
    show ?thesis
      using pq Inr rq tr sh ext iss
      by (intro exI [where x = r] exI [where x = w'] exI [where x = "Suc j"] exI [where x = tail])
         auto
  qed
qed

lemma filters_query_events [simp]:
  "appends (query_events tid aid q) = [(CreateMessage tid USER q, Returned)]"
  "runs (query_events tid aid q) = [(CreateAndProcessRun tid aid, Returned)]"
  "deletions (query_events tid aid q) = []"
  by (simp_all add: appends_def runs_def deletions_def query_events_def query_calls_def)

lemma filters_append [simp]:
  "appends (xs @ ys) = appends xs @ appends ys"
  "runs (xs @ ys) = runs xs @ runs ys"
  "deletions (xs @ ys) = deletions xs @ deletions ys"
  by (simp_all add: appends_def runs_def deletions_def)

lemma filters_Nil [simp]: "appends [] = []" "runs [] = []" "deletions [] = []"
  by (simp_all add: appends_def runs_def deletions_def)

lemma appends_completed:
  "appends (concat (map (query_events tid aid) xs)) = map (\<lambda>q. (CreateMessage tid USER q, Returned)) xs"
  by (induction xs) simp_all

lemma runs_completed:
  "runs (concat (map (query_events tid aid) xs)) = replicate (length xs) (CreateAndProcessRun tid aid, Returned)"
  by (induction xs) simp_all

lemma deletions_completed: "deletions (concat (map (query_events tid aid) xs)) = []"
  by (induction xs) simp_all

lemma calls_completed:
  "map fst (concat (map (query_events tid aid) xs)) = concat (map (query_calls tid aid) xs)"
  by (induction xs) (simp_all add: query_events_def comp_def)

lemma aborted_query_filters:
  assumes "stops_at_first_raise (query_calls tid aid q) tail"
  shows "deletions tail = []"
    and "map fst (appends tail) = [CreateMessage tid USER q]"
    and "runs tail = [] \<or> (\<exists>final. runs tail = [(CreateAndProcessRun tid aid, final)])"
    and "prefix (map fst tail) (query_calls tid aid q)"
  using assms
  by (auto simp: query_calls_def stops_three appends_def runs_def deletions_def)

lemma teardown_filters:
  assumes "stops_at_first_raise (teardown_calls agent thr uploaded store) td"
  shows "deletions td = td" and "appends td = []" and "runs td = []"
  using assms
  by (auto simp: teardown_calls_def stops_four appends_def runs_def deletions_def)

lemma run_queries_issued:
  "trace (snd (run_queries pc agent tid qs w)) = trace w @ issued_by (run_queries pc agent tid qs) w"
  using run_queries_shape [of pc agent tid qs w] by (auto simp: issued_by_def)

lemma run_queries_events:
  "\<exists>j tail. issued_by (run_queries pc agent tid qs) w =
        concat (map (query_events tid (agent_id agent)) (take j qs)) @ tail \<and>
      ((fst (run_queries pc agent tid qs w) = Inr () \<and> j = length qs \<and> tail = []) \<or>
       (\<exists>e. fst (run_queries pc agent tid qs w) = Inl e \<and> j < length qs \<and>
          stops_at_first_raise (query_calls tid (agent_id agent) (qs ! j)) tail))"
proof -
  from run_queries_shape [of pc agent tid qs w] obtain r w' j tail where
    rq: "run_queries pc agent tid qs w = (r, w')" and
    tr: "trace w' = trace w @ concat (map (query_events tid (agent_id agent)) (take j qs)) @ tail" and
    sh: "(r = Inr () \<and> j = length qs \<and> tail = []) \<or>
         (\<exists>e. r = Inl e \<and> j < length qs \<and>
            stops_at_first_raise (query_calls tid (agent_id agent) (qs ! j)) tail)"
    by blast
  have "issued_by (run_queries pc agent tid qs) w =
          concat (map (query_events tid (agent_id agent)) (take j qs)) @ tail"
    using rq tr by (simp add: issued_by_def)
  moreover have "fst (run_queries pc agent tid qs w) = r"
    using rq by simp
  ultimately show ?thesis
    using sh by blast
qed

lemma query_loop_issued:
  "issued_by (query_loop client pc agent thr uploaded store qs) w =
     issued_by (run_queries pc agent (thread_id thr) qs) w
     @ issued_by (teardown client pc agent thr uploaded store)
         (snd (run_queries pc agent (thread_id thr) qs w))"
proof -
  obtain r1 w1 where rq: "run_queries pc agent (thread_id thr) qs w = (r1, w1)"
    by (cases "run_queries pc agent (thread_id thr) qs w")
  obtain r2 w2 where td: "teardown client pc agent thr uploaded store w1 = (r2, w2)"
    by (cases "teardown client pc agent thr uploaded store w1")
  have t1: "trace w1 = trace w @ issued_by (run_queries pc agent (thread_id thr) qs) w"
    using run_queries_issued [of pc agent "thread_id thr" qs w] rq by simp
  have t2: "trace w2 = trace w1 @ issued_by (teardown client pc agent thr uploaded store) w1"
    using teardown_extends [of client pc agent thr uploaded store w1] td by simp
  have "query_loop client pc agent thr uploaded store qs w =
          (case r2 of Inl e \<Rightarrow> (Inl e, w2) | Inr u \<Rightarrow> (r1, w2))"
    by (simp add: query_loop_def try_finally_def rq td)
  then have "snd (query_loop client pc agent thr uploaded store qs w) = w2"
    by (cases r2) simp_all
  then have "issued_by (query_loop client pc agent thr uploaded store qs) w =
               drop (length (trace w)) (trace w2)"
    by (simp add: issued_by_def)
  also have "\<dots> = issued_by (run_queries pc agent (thread_id thr) qs) w
                  @ issued_by (teardown client pc agent thr uploaded store) w1"
    by (simp add: t1 t2)
  finally show ?thesis
    by (simp add: rq)
qed

lemma query_loop_events:
  "\<exists>j tail td. issued_by (query_loop client pc agent thr uploaded store qs) w =
        concat (map (query_events (thread_id thr) (agent_id agent)) (take j qs)) @ tail @ td \<and>
      stops_at_first_raise (teardown_calls agent thr uploaded store) td \<and>
      ((j = length qs \<and> tail = []) \<or>
       (j < length qs \<and>
          stops_at_first_raise (query_calls (thread_id thr) (agent_id agent) (qs ! j)) tail))"
proof -
  from run_queries_events [of pc agent "thread_id thr" qs w] obtain j tail where
    evs: "issued_by (run_queries pc agent (thread_id thr) qs) w =
            concat (map (query_events (thread_id thr) (agent_id agent)) (take j qs)) @ tail" and
    sh: "(j = length qs \<and> tail = []) \<or>
         (j < length qs \<and>
            stops_at_first_raise (query_calls (thread_id thr) (agent_id agent) (qs ! j)) tail)"
    by blast
  show ?thesis
    using query_loop_issued [of client pc agent thr uploaded store qs w] evs sh
      teardown_issued [of agent thr uploaded store client pc
        "snd (run_queries pc agent (thread_id thr) qs w)"]
    by (intro exI [where x = j] exI [where x = tail]
          exI [where x = "issued_by (teardown client pc agent thr uploaded store)
                 (snd (run_queries pc agent (thread_id thr) qs w))"]) simp
qed

lemma print_text_blocks_all:
  "list_all has_payload (filter is_text_block bs) \<Longrightarrow>
     print_text_blocks bs w =
       (Inr (), w\<lparr>stdout := stdout w @ map text_line (filter is_text_block bs)\<rparr>)"
proof (induction bs arbitrary: w)
  case Nil
  show ?case by simp
next
  case (Cons b bs)
  then show ?case
    by (auto simp: is_text_block_def has_payload_def text_line_def print_line_def)
qed

lemma process_query_after_calls:
  assumes "create_message pc tid USER q (remote w) = (Inr m, s1)"
    and "create_and_process_run pc tid (agent_id agent) s1 = (Inr rn, s2)"
    and "list_messages pc tid s2 = (Inr page, s3)"
    and "list_all has_payload (filter is_text_block (first_content page))"
  shows "fst (process_query pc agent tid q w) = Inr ()"
    and "printed_by (process_query pc agent tid q) w =
           [nl @ ''Processing query: '' @ q, ''Responses:'']
           @ map text_line (filter is_text_block (first_content page))
           @ [separator_line]"
  using assms
  by (auto simp: process_query_def invoke_def Let_def first_content_def print_text_blocks_all
        print_line_def printed_by_def split: option.splits list.splits)

lemma augmented_prompt_longer: "length q < length (build_augmented_prompt q ctx)"
  by (simp add: build_augmented_prompt_def)

lemma print_text_blocks_frame:
  "print_text_blocks bs w = (r, w') \<Longrightarrow> trace w' = trace w \<and> remote w' = remote w"
  using print_text_blocks_trace [of bs w] print_text_blocks_remote [of bs w] by simp

text \<open>
  What one query does to the remote service: the service functions it applies, on which
  arguments and to which remote state, and the state it leaves.
\<close>

lemma process_query_effect:
  "(case create_message pc tid USER q (remote w) of
      (Inl e, s1) \<Rightarrow>
        fst (process_query pc agent tid q w) = Inl e
        \<and> remote (snd (process_query pc agent tid q w)) = s1
        \<and> issued_by (process_query pc agent tid q) w = [(CreateMessage tid USER q, Raised e)]
    | (Inr m, s1) \<Rightarrow>
        (case create_and_process_run pc tid (agent_id agent) s1 of
           (Inl e, s2) \<Rightarrow>
             fst (process_query pc agent tid q w) = Inl e
             \<and> remote (snd (process_query pc agent tid q w)) = s2
             \<and> issued_by (process_query pc agent tid q) w =
                 [(CreateMessage tid USER q, Returned),
                  (CreateAndProcessRun tid (agent_id agent), Raised e)]
         | (Inr rn, s2) \<Rightarrow>
             (case list_messages pc tid s2 of
                (Inl e, s3) \<Rightarrow>
                  fst (process_query pc agent tid q w) = Inl e
                  \<and> remote (snd (process_query pc agent tid q w)) = s3
                  \<and> issued_by (process_query pc agent tid q) w =
                      [(CreateMessage tid USER q, Returned),
                       (CreateAndProcessRun tid (agent_id agent), Returned),
                       (ListMessages tid, Raised e)]
              | (Inr page, s3) \<Rightarrow>
                  remote (snd (process_query pc agent tid q w)) = s3
                  \<and> issued_by (process_query pc agent tid q) w =
                      query_events tid (agent_id agent) q)))"
  unfolding process_query_def Let_def query_events_def query_calls_def issued_by_def invoke_def
  by (auto simp: outcome_of_def split: prod.splits sum.splits list.splits option.splits
        dest!: print_text_blocks_frame)

text \<open>The same for the provisioning step.\<close>

lemma provision_effect:
  "(case upload_file_and_poll pc ''document.md'' AGENTS (remote w) of
      (Inl e, s1) \<Rightarrow>
        fst (provision pc w) = Inl e
        \<and> remote (snd (provision pc w)) = s1
        \<and> issued_by (provision pc) w = [(UploadFileAndPoll ''document.md'' AGENTS, Raised e)]
    | (Inr uploaded, s1) \<Rightarrow>
        (case create_vector_store_and_poll pc [file_id uploaded] ''vector_store'' s1 of
           (Inl e, s2) \<Rightarrow>
             fst (provision pc w) = Inl e
             \<and> remote (snd (provision pc w)) = s2
             \<and> issued_by (provision pc) w =
                 [(UploadFileAndPoll ''document.md'' AGENTS, Returned),
                  (CreateVectorStoreAndPoll [file_id uploaded] ''vector_store'', Raised e)]
         | (Inr store, s2) \<Rightarrow>
             fst (provision pc w) = Inr (uploaded, store)
             \<and> remote (snd (provision pc w)) = s2
             \<and> issued_by (provision pc) w =
                 [(UploadFileAndPoll ''document.md'' AGENTS, Returned),
                  (CreateVectorStoreAndPoll [file_id uploaded] ''vector_store'', Returned)]))"
  by (auto simp: provision_def invoke_def issued_by_def outcome_of_def print_line_def Let_def
        split: prod.splits sum.splits)

lemma provision_registry:
  "fst (provision registry_service rw) = Inr (UploadedFile ''file_1'', VectorStore ''vs_1'')
   \<and> remote (snd (provision registry_service rw)) =
       StoreResource ''vs_1'' [''file_1''] # FileResource ''file_1'' # remote rw"
  by (simp add: provision_def invoke_def registry_service_def print_line_def Let_def)

section \<open>Concrete executions of the whole notebook\<close>

text \<open>
  Both exit paths of the query loop occur, and each is followed by the teardown. With the
  test double, a batch that runs to its end and a batch whose first run raises both end
  with the four deletions. The last example runs \<open>main\<close> on the queries of the notebook.
\<close>

lemma teardown_after_normal_exit_example:
  "fst (run_queries (fake_service never (canned [''answer''])) agent1 ''thread_1'' [''q1'', ''q2''] start)
     = Inr ()
   \<and> map fst (deletions (issued_by
     (query_loop (fake_service never (canned [''answer''])) (fake_service never (canned [''answer'']))
                 agent1 thread1 file1 store1 [''q1'', ''q2'']) start))
     = teardown_calls agent1 thread1 file1 store1"
  by (simp add: program_simps double_simps canned_def)

lemma teardown_after_exception_example:
  "fst (run_queries (fake_service (run_raises_on ''q1'') silent) agent1 ''thread_1'' [''q1'', ''q2''] start)
     = Inl (RemoteError ''service error'')
   \<and> map fst (deletions (issued_by
     (query_loop (fake_service (run_raises_on ''q1'') silent) (fake_service (run_raises_on ''q1'') silent)
                 agent1 thread1 file1 store1 [''q1'', ''q2'']) start))
     = teardown_calls agent1 thread1 file1 store1"
  by (simp add: program_simps double_simps run_raises_on_def silent_def)

lemma main_end_to_end_example:
  "map fst (issued_by
     (main (fake_service never (canned [''Coverage includes X'']))
           (fake_service never (canned [''Coverage includes X'']))
           (bind_tools store1) file1 store1) start)
   = [CreateAgent ''gpt-4o-mini'' AGENT_NAME AGENT_INSTRUCTIONS [FileSearchTool [''vs_1'']],
      CreateThread]
     @ concat (map (query_calls ''thread_1'' ''agent_1'') user_inputs)
     @ teardown_calls agent1 thread1 file1 store1"
  by (simp add: program_simps double_simps canned_def main_def main_on_def bind_tools_def
        user_inputs_def)

section \<open>Lifecycle Controller: teardown\<close>

text \<open>
  Claim C1, as amended. For every execution of the query loop, whether the loop completes
  normally or leaves through an exception, the teardown phase is entered after the last
  call of the loop: delete thread is always issued, and the deletions are issued in the
  order thread, agent, uploaded file, vector store, each one only when the one before it
  has returned. All four are issued whenever none of the first three raises; when one of
  them raises, the deletions after it are not issued. The loop itself issues no deletion.
  Nothing is assumed about the outcome of the loop, so the statement covers both exits.
\<close>

theorem teardown_on_every_exit_path:
  "\<exists>td. issued_by (query_loop client pc agent thr uploaded store qs) w =
          issued_by (run_queries pc agent (thread_id thr) qs) w @ td
      \<and> deletions (issued_by (run_queries pc agent (thread_id thr) qs) w) = []
      \<and> ((\<exists>e. td = [(DeleteThread (thread_id thr), Raised e)])
       \<or> (\<exists>e. td = [(DeleteThread (thread_id thr), Returned), (DeleteAgent (agent_id agent), Raised e)])
       \<or> (\<exists>e. td = [(DeleteThread (thread_id thr), Returned), (DeleteAgent (agent_id agent), Returned),
                     (DeleteFile (file_id uploaded), Raised e)])
       \<or> (\<exists>final. td = [(DeleteThread (thread_id thr), Returned), (DeleteAgent (agent_id agent), Returned),
                     (DeleteFile (file_id uploaded), Returned),
                     (DeleteVectorStore (store_id store), final)]))"
proof -
  let ?td = "issued_by (teardown client pc agent thr uploaded store)
               (snd (run_queries pc agent (thread_id thr) qs w))"
  have "stops_at_first_raise (teardown_calls agent thr uploaded store) ?td"
    by (rule teardown_issued)
  then have shape: "(\<exists>e. ?td = [(DeleteThread (thread_id thr), Raised e)])
       \<or> (\<exists>e. ?td = [(DeleteThread (thread_id thr), Returned), (DeleteAgent (agent_id agent), Raised e)])
       \<or> (\<exists>e. ?td = [(DeleteThread (thread_id thr), Returned), (DeleteAgent (agent_id agent), Returned),
                     (DeleteFile (file_id uploaded), Raised e)])
       \<or> (\<exists>final. ?td = [(DeleteThread (thread_id thr), Returned), (DeleteAgent (agent_id agent), Returned),
                     (DeleteFile (file_id uploaded), Returned),
                     (DeleteVectorStore (store_id store), final)])"
    by (simp add: teardown_calls_def stops_four)
  have nodel: "deletions (issued_by (run_queries pc agent (thread_id thr) qs) w) = []"
    using run_queries_events [of pc agent "thread_id thr" qs w]
    by (auto simp: deletions_completed aborted_query_filters(1))
  show ?thesis
    using query_loop_issued [of client pc agent thr uploaded store qs w] shape nodel
    by (intro exI [where x = ?td]) simp
qed

text \<open>
  The claim as first stated (all four deletions on every execution) fails when a deletion
  raises: with a service whose delete thread raises, only delete thread is issued.
\<close>

theorem teardown_cut_short_counterexample:
  "map fst (deletions (issued_by
     (query_loop (fake_service (raises_on (DeleteThread ''thread_1'')) (canned [''answer'']))
                 (fake_service (raises_on (DeleteThread ''thread_1'')) (canned [''answer'']))
                 agent1 thread1 file1 store1 [''q1'', ''q2'']) start))
     = [DeleteThread ''thread_1'']
   \<and> map fst (deletions (issued_by
     (query_loop (fake_service (raises_on (DeleteThread ''thread_1'')) (canned [''answer'']))
                 (fake_service (raises_on (DeleteThread ''thread_1'')) (canned [''answer'']))
                 agent1 thread1 file1 store1 [''q1'', ''q2'']) start))
     \<noteq> teardown_calls agent1 thread1 file1 store1"
  by (simp add: program_simps double_simps raises_on_def canned_def)

text \<open>
  Claim C10. The deletions of the teardown are not fault-isolated from each other. If
  delete thread raises, it is the only deletion issued: agent, file and vector store are
  not attempted. If delete agent raises, file and vector store are not attempted. If
  delete file raises, the vector store is not attempted.
\<close>

theorem deletions_not_fault_isolated:
  "((DeleteThread (thread_id thr), Raised e)
        \<in> set (issued_by (query_loop client pc agent thr uploaded store qs) w) \<longrightarrow>
      deletions (issued_by (query_loop client pc agent thr uploaded store qs) w)
        = [(DeleteThread (thread_id thr), Raised e)])
   \<and> ((DeleteAgent (agent_id agent), Raised e)
        \<in> set (issued_by (query_loop client pc agent thr uploaded store qs) w) \<longrightarrow>
      deletions (issued_by (query_loop client pc agent thr uploaded store qs) w)
        = [(DeleteThread (thread_id thr), Returned), (DeleteAgent (agent_id agent), Raised e)])
   \<and> ((DeleteFile (file_id uploaded), Raised e)
        \<in> set (issued_by (query_loop client pc agent thr uploaded store qs) w) \<longrightarrow>
      deletions (issued_by (query_loop client pc agent thr uploaded store qs) w)
        = [(DeleteThread (thread_id thr), Returned), (DeleteAgent (agent_id agent), Returned),
           (DeleteFile (file_id uploaded), Raised e)])"
proof -
  let ?evs = "issued_by (query_loop client pc agent thr uploaded store qs) w"
  from query_loop_events [of client pc agent thr uploaded store qs w] obtain j tail td where
    evs: "?evs = concat (map (query_events (thread_id thr) (agent_id agent)) (take j qs)) @ tail @ td" and
    td: "stops_at_first_raise (teardown_calls agent thr uploaded store) td" and
    sh: "(j = length qs \<and> tail = []) \<or>
         (j < length qs \<and>
            stops_at_first_raise (query_calls (thread_id thr) (agent_id agent) (qs ! j)) tail)"
    by blast
  have dl: "deletions ?evs = td"
    using sh by (auto simp: evs deletions_completed teardown_filters(1) [OF td]
                   aborted_query_filters(1))
  have mem: "ev \<in> set ?evs \<Longrightarrow> is_deletion (fst ev) \<Longrightarrow> ev \<in> set td" for ev
  proof -
    assume "ev \<in> set ?evs" "is_deletion (fst ev)"
    then have "ev \<in> set (deletions ?evs)"
      by (simp add: deletions_def)
    then show "ev \<in> set td"
      by (simp only: dl)
  qed
  show ?thesis
    using td mem [of "(DeleteThread (thread_id thr), Raised e)"]
      mem [of "(DeleteAgent (agent_id agent), Raised e)"]
      mem [of "(DeleteFile (file_id uploaded), Raised e)"]
    by (auto simp: dl teardown_calls_def stops_four)
qed

theorem deletions_not_fault_isolated_witness:
  "(DeleteThread ''thread_1'', Raised (RemoteError ''service error''))
     \<in> set (issued_by
         (query_loop (fake_service (raises_on (DeleteThread ''thread_1'')) silent)
                     (fake_service (raises_on (DeleteThread ''thread_1'')) silent)
                     agent1 thread1 file1 store1 [''q1'']) start)
   \<and> (DeleteAgent ''agent_1'', Raised (RemoteError ''service error''))
     \<in> set (issued_by
         (query_loop (fake_service (raises_on (DeleteAgent ''agent_1'')) silent)
                     (fake_service (raises_on (DeleteAgent ''agent_1'')) silent)
                     agent1 thread1 file1 store1 [''q1'']) start)
   \<and> (DeleteFile ''file_1'', Raised (RemoteError ''service error''))
     \<in> set (issued_by
         (query_loop (fake_service (raises_on (DeleteFile ''file_1'')) silent)
                     (fake_service (raises_on (DeleteFile ''file_1'')) silent)
                     agent1 thread1 file1 store1 [''q1'']) start)
   \<and> deletions (issued_by
     (query_loop (fake_service (raises_on (DeleteThread ''thread_1'')) silent)
                 (fake_service (raises_on (DeleteThread ''thread_1'')) silent)
                 agent1 thread1 file1 store1 [''q1'']) start)
     = [(DeleteThread ''thread_1'', Raised (RemoteError ''service error''))]
   \<and> deletions (issued_by
     (query_loop (fake_service (raises_on (DeleteAgent ''agent_1'')) silent)
                 (fake_service (raises_on (DeleteAgent ''agent_1'')) silent)
                 agent1 thread1 file1 store1 [''q1'']) start)
     = [(DeleteThread ''thread_1'', Returned),
        (DeleteAgent ''agent_1'', Raised (RemoteError ''service error''))]
   \<and> deletions (issued_by
     (query_loop (fake_service (raises_on (DeleteFile ''file_1'')) silent)
                 (fake_service (raises_on (DeleteFile ''file_1'')) silent)
                 agent1 thread1 file1 store1 [''q1'']) start)
     = [(DeleteThread ''thread_1'', Returned), (DeleteAgent ''agent_1'', Returned),
        (DeleteFile ''file_1'', Raised (RemoteError ''service error''))]"
proof -
  let ?e = "RemoteError ''service error''"
  let ?s1 = "fake_service (raises_on (DeleteThread ''thread_1'')) silent"
  let ?s2 = "fake_service (raises_on (DeleteAgent ''agent_1'')) silent"
  let ?s3 = "fake_service (raises_on (DeleteFile ''file_1'')) silent"
  have h1: "(DeleteThread (thread_id thread1), Raised ?e)
              \<in> set (issued_by (query_loop ?s1 ?s1 agent1 thread1 file1 store1 [''q1'']) start)"
    by (simp add: program_simps double_simps raises_on_def silent_def)
  have h2: "(DeleteAgent (agent_id agent1), Raised ?e)
              \<in> set (issued_by (query_loop ?s2 ?s2 agent1 thread1 file1 store1 [''q1'']) start)"
    by (simp add: program_simps double_simps raises_on_def silent_def)
  have h3: "(DeleteFile (file_id file1), Raised ?e)
              \<in> set (issued_by (query_loop ?s3 ?s3 agent1 thread1 file1 store1 [''q1'']) start)"
    by (simp add: program_simps double_simps raises_on_def silent_def)
  show ?thesis
    using h1 h2 h3
      deletions_not_fault_isolated [of thread1 ?e ?s1 ?s1 agent1 file1 store1 "[''q1'']" start]
      deletions_not_fault_isolated [of thread1 ?e ?s2 ?s2 agent1 file1 store1 "[''q1'']" start]
      deletions_not_fault_isolated [of thread1 ?e ?s3 ?s3 agent1 file1 store1 "[''q1'']" start]
    by (simp add: thread1_def agent1_def file1_def)
qed

section \<open>Lifecycle Controller and Query Driver: the batch of queries\<close>

text \<open>
  Claim C3, as amended. For every input sequence of queries the calls of the loop are an
  initial part of: append query 1, run, list, append query 2, run, list, and so on, every
  call against the one thread id and in the order the queries were supplied. When the
  loop processes all \<open>N\<close> queries without an exception, the calls are the whole sequence:
  exactly \<open>N\<close> appends, the k-th carrying the k-th query, and exactly \<open>N\<close> runs.
\<close>

theorem queries_issued_in_supplied_order:
  "prefix (map fst (issued_by (run_queries pc agent tid qs) w))
          (concat (map (query_calls tid (agent_id agent)) qs))
   \<and> (fst (run_queries pc agent tid qs w) = Inr () \<longrightarrow>
        issued_by (run_queries pc agent tid qs) w
          = concat (map (query_events tid (agent_id agent)) qs)
        \<and> map fst (appends (issued_by (run_queries pc agent tid qs) w))
            = map (CreateMessage tid USER) qs
        \<and> map fst (runs (issued_by (run_queries pc agent tid qs) w))
            = replicate (length qs) (CreateAndProcessRun tid (agent_id agent)))"
proof -
  let ?evs = "issued_by (run_queries pc agent tid qs) w"
  let ?aid = "agent_id agent"
  from run_queries_events [of pc agent tid qs w] obtain j tail where
    evs: "?evs = concat (map (query_events tid ?aid) (take j qs)) @ tail" and
    sh: "(fst (run_queries pc agent tid qs w) = Inr () \<and> j = length qs \<and> tail = []) \<or>
         (\<exists>e. fst (run_queries pc agent tid qs w) = Inl e \<and> j < length qs \<and>
            stops_at_first_raise (query_calls tid ?aid (qs ! j)) tail)"
    by blast
  have pre: "prefix (map fst ?evs) (concat (map (query_calls tid ?aid) qs))"
  proof (cases "fst (run_queries pc agent tid qs w)")
    case (Inr u)
    with sh have "j = length qs" "tail = []" by auto
    then show ?thesis
      by (simp add: evs calls_completed)
  next
    case (Inl e)
    with sh have j: "j < length qs"
      and st: "stops_at_first_raise (query_calls tid ?aid (qs ! j)) tail" by auto
    have split: "qs = take j qs @ qs ! j # drop (Suc j) qs"
      using j by (simp add: id_take_nth_drop)
    have "concat (map (query_calls tid ?aid) qs) =
            concat (map (query_calls tid ?aid) (take j qs)) @ query_calls tid ?aid (qs ! j)
            @ concat (map (query_calls tid ?aid) (drop (Suc j) qs))"
      by (subst split) simp
    moreover have "prefix (map fst tail) (query_calls tid ?aid (qs ! j))"
      using st by (rule aborted_query_filters(4))
    ultimately show ?thesis
      by (simp add: evs calls_completed prefix_def) auto
  qed
  have full: "fst (run_queries pc agent tid qs w) = Inr () \<Longrightarrow>
                ?evs = concat (map (query_events tid ?aid) qs)"
    using sh evs by auto
  show ?thesis
    using pre full by (auto simp: appends_completed runs_completed comp_def)
qed

theorem queries_issued_in_supplied_order_witness:
  "fst (run_queries (fake_service never (canned [''answer''])) agent1 ''thread_1''
          [''q1'', ''q2'', ''q3''] start) = Inr ()
   \<and> map fst (appends (issued_by
        (run_queries (fake_service never (canned [''answer''])) agent1 ''thread_1''
           [''q1'', ''q2'', ''q3'']) start))
      = [CreateMessage ''thread_1'' USER ''q1'', CreateMessage ''thread_1'' USER ''q2'',
         CreateMessage ''thread_1'' USER ''q3'']
   \<and> map fst (runs (issued_by
        (run_queries (fake_service never (canned [''answer''])) agent1 ''thread_1''
           [''q1'', ''q2'', ''q3'']) start))
      = [CreateAndProcessRun ''thread_1'' ''agent_1'', CreateAndProcessRun ''thread_1'' ''agent_1'',
         CreateAndProcessRun ''thread_1'' ''agent_1'']"
proof -
  let ?svc = "fake_service never (canned [''answer''])"
  have h: "fst (run_queries ?svc agent1 ''thread_1'' [''q1'', ''q2'', ''q3''] start) = Inr ()"
    by (simp add: program_simps double_simps canned_def)
  show ?thesis
    using h queries_issued_in_supplied_order
      [of ?svc agent1 "''thread_1''" "[''q1'', ''q2'', ''q3'']" start]
    by (simp add: agent1_def)
qed

text \<open>
  The claim as first stated (exactly \<open>N\<close> appends and \<open>N\<close> runs for every input)
  fails when a query raises: with three queries and a run that raises on the second, two
  appends and two runs are issued.
\<close>

theorem aborted_batch_counterexample:
  "map fst (appends (issued_by
     (run_queries (fake_service (run_raises_on ''q2'') (canned [''answer'']))
        agent1 ''thread_1'' [''q1'', ''q2'', ''q3'']) start))
     = [CreateMessage ''thread_1'' USER ''q1'', CreateMessage ''thread_1'' USER ''q2'']
   \<and> length (runs (issued_by
     (run_queries (fake_service (run_raises_on ''q2'') (canned [''answer'']))
        agent1 ''thread_1'' [''q1'', ''q2'', ''q3'']) start)) = 2
   \<and> length [''q1'', ''q2'', ''q3''] = 3"
  by (simp add: program_simps double_simps run_raises_on_def canned_def)

text \<open>
  Claim C4, as amended. If the run for query \<open>k\<close> raises, then exactly the first \<open>k\<close>
  queries are appended and exactly \<open>k\<close> runs are issued, so queries \<open>k+1\<close> to \<open>N\<close> are
  not attempted; the cleanup phase still executes, issuing the deletions thread, agent,
  file, vector store in that order, none of them twice, and each of them exactly once
  provided the deletions before it returned.
\<close>

theorem run_failure_aborts_batch:
  assumes "0 < k"
    and "k \<le> length (runs (issued_by (query_loop client pc agent thr uploaded store qs) w))"
    and "snd (runs (issued_by (query_loop client pc agent thr uploaded store qs) w) ! (k - 1)) = Raised e"
  shows "k \<le> length qs
       \<and> map fst (appends (issued_by (query_loop client pc agent thr uploaded store qs) w))
           = map (CreateMessage (thread_id thr) USER) (take k qs)
       \<and> length (runs (issued_by (query_loop client pc agent thr uploaded store qs) w)) = k
       \<and> stops_at_first_raise (teardown_calls agent thr uploaded store)
           (deletions (issued_by (query_loop client pc agent thr uploaded store qs) w))"
proof -
  let ?evs = "issued_by (query_loop client pc agent thr uploaded store qs) w"
  let ?tid = "thread_id thr" and ?aid = "agent_id agent"
  from query_loop_events [of client pc agent thr uploaded store qs w] obtain j tail td where
    evs: "?evs = concat (map (query_events ?tid ?aid) (take j qs)) @ tail @ td" and
    td: "stops_at_first_raise (teardown_calls agent thr uploaded store) td" and
    sh: "(j = length qs \<and> tail = []) \<or>
         (j < length qs \<and> stops_at_first_raise (query_calls ?tid ?aid (qs ! j)) tail)"
    by blast
  have jle: "j \<le> length qs" using sh by auto
  have rn: "runs ?evs = replicate j (CreateAndProcessRun ?tid ?aid, Returned) @ runs tail"
    using jle by (simp add: evs runs_completed teardown_filters(3) [OF td])
  have dl: "deletions ?evs = td"
    using sh by (auto simp: evs deletions_completed teardown_filters(1) [OF td]
                   aborted_query_filters(1))
  have kj: "\<not> k - 1 < j"
  proof
    assume "k - 1 < j"
    then have "runs ?evs ! (k - 1) = (CreateAndProcessRun ?tid ?aid, Returned)"
      by (simp add: rn nth_append)
    with assms(3) show False by simp
  qed
  have tail_ne: "runs tail \<noteq> []"
    using assms(1,2) kj by (auto simp: rn)
  then have aborted: "j < length qs"
    and st: "stops_at_first_raise (query_calls ?tid ?aid (qs ! j)) tail"
    using sh by auto
  from aborted_query_filters(3) [OF st] tail_ne obtain final where
    rt: "runs tail = [(CreateAndProcessRun ?tid ?aid, final)]" by blast
  have keq: "k = Suc j"
    using assms(1,2) kj by (simp add: rn rt)
  have "map fst (appends ?evs) =
          map (CreateMessage ?tid USER) (take j qs) @ [CreateMessage ?tid USER (qs ! j)]"
    by (simp add: evs appends_completed teardown_filters(2) [OF td]
          aborted_query_filters(2) [OF st] comp_def)
  also have "\<dots> = map (CreateMessage ?tid USER) (take (Suc j) qs)"
    using aborted by (simp add: take_Suc_conv_app_nth)
  finally have ap: "map fst (appends ?evs) = map (CreateMessage ?tid USER) (take k qs)"
    by (simp add: keq)
  show ?thesis
    using ap aborted keq td by (simp add: rn rt dl)
qed

theorem run_failure_aborts_batch_witness:
  "0 < (2::nat)
   \<and> 2 \<le> length (runs (issued_by
     (query_loop (fake_service (run_raises_on ''q2'') (canned [''answer'']))
                 (fake_service (run_raises_on ''q2'') (canned [''answer'']))
                 agent1 thread1 file1 store1 [''q1'', ''q2'', ''q3'']) start))
   \<and> snd (runs (issued_by
     (query_loop (fake_service (run_raises_on ''q2'') (canned [''answer'']))
                 (fake_service (run_raises_on ''q2'') (canned [''answer'']))
                 agent1 thread1 file1 store1 [''q1'', ''q2'', ''q3'']) start) ! (2 - 1))
     = Raised (RemoteError ''service error'')
   \<and> map fst (appends (issued_by
     (query_loop (fake_service (run_raises_on ''q2'') (canned [''answer'']))
                 (fake_service (run_raises_on ''q2'') (canned [''answer'']))
                 agent1 thread1 file1 store1 [''q1'', ''q2'', ''q3'']) start))
     = map (CreateMessage ''thread_1'' USER) (take 2 [''q1'', ''q2'', ''q3''])
   \<and> map fst (deletions (issued_by
     (query_loop (fake_service (run_raises_on ''q2'') (canned [''answer'']))
                 (fake_service (run_raises_on ''q2'') (canned [''answer'']))
                 agent1 thread1 file1 store1 [''q1'', ''q2'', ''q3'']) start))
     = teardown_calls agent1 thread1 file1 store1"
proof -
  let ?svc = "fake_service (run_raises_on ''q2'') (canned [''answer''])"
  let ?evs = "issued_by (query_loop ?svc ?svc agent1 thread1 file1 store1 [''q1'', ''q2'', ''q3'']) start"
  have h1: "0 < (2::nat)" by simp
  have h2: "2 \<le> length (runs ?evs)"
    by (simp add: program_simps double_simps run_raises_on_def canned_def)
  have h3: "snd (runs ?evs ! (2 - 1)) = Raised (RemoteError ''service error'')"
    by (simp add: program_simps double_simps run_raises_on_def canned_def)
  have d: "map fst (deletions ?evs) = teardown_calls agent1 thread1 file1 store1"
    by (simp add: program_simps double_simps run_raises_on_def canned_def)
  show ?thesis
    using h1 h2 h3 d run_failure_aborts_batch [OF h1 h2 h3]
    by (simp add: thread1_def)
qed

text \<open>
  The claim as first stated (each of the four deletions exactly once) fails when, after
  the failed run, a deletion raises too: with a service whose run raises on the second
  query and whose delete thread raises, the agent, the file and the vector store are
  never deleted.
\<close>

theorem leaked_after_run_failure_counterexample:
  "snd (runs (issued_by
     (query_loop
        (fake_service (either (run_raises_on ''q2'') (raises_on (DeleteThread ''thread_1''))) (canned [''answer'']))
        (fake_service (either (run_raises_on ''q2'') (raises_on (DeleteThread ''thread_1''))) (canned [''answer'']))
        agent1 thread1 file1 store1 [''q1'', ''q2'', ''q3'']) start) ! 1)
     = Raised (RemoteError ''service error'')
   \<and> map fst (deletions (issued_by
     (query_loop
        (fake_service (either (run_raises_on ''q2'') (raises_on (DeleteThread ''thread_1''))) (canned [''answer'']))
        (fake_service (either (run_raises_on ''q2'') (raises_on (DeleteThread ''thread_1''))) (canned [''answer'']))
        agent1 thread1 file1 store1 [''q1'', ''q2'', ''q3'']) start))
     = [DeleteThread ''thread_1'']"
  by (simp add: program_simps double_simps either_def run_raises_on_def raises_on_def canned_def)

section \<open>Query Driver: one query\<close>

text \<open>
  Claim C6. For every query the Query Driver appends a user-role message whose content is
  the raw query string. The first thing \<open>process_query\<close> does to the remote service is to
  apply \<open>create_message\<close> to the thread id, the user role and the raw query, on the remote
  state it was given: if that call raises, its error and the state it leaves are the
  outcome of the query; if it returns, the run is applied to the state it leaves, then
  the listing to the state the run leaves, and the state the listing leaves is the state
  after the query. So what reaches the thread is what the service makes of the raw query,
  and no other append is issued. The content sent is never an output of the Prompt
  Augmenter, which differs from the query for every retrieval context.
\<close>

theorem raw_query_is_appended:
  "(\<exists>final rest. issued_by (process_query pc agent tid q) w = (CreateMessage tid USER q, final) # rest)
   \<and> map fst (appends (issued_by (process_query pc agent tid q) w)) = [CreateMessage tid USER q]
   \<and> (\<forall>ctx. build_augmented_prompt q ctx \<noteq> q)
   \<and> (case create_message pc tid USER q (remote w) of
        (Inl e, s1) \<Rightarrow>
          fst (process_query pc agent tid q w) = Inl e
          \<and> remote (snd (process_query pc agent tid q w)) = s1
          \<and> issued_by (process_query pc agent tid q) w = [(CreateMessage tid USER q, Raised e)]
      | (Inr m, s1) \<Rightarrow>
          (case create_and_process_run pc tid (agent_id agent) s1 of
             (Inl e, s2) \<Rightarrow>
               fst (process_query pc agent tid q w) = Inl e
               \<and> remote (snd (process_query pc agent tid q w)) = s2
               \<and> issued_by (process_query pc agent tid q) w =
                   [(CreateMessage tid USER q, Returned),
                    (CreateAndProcessRun tid (agent_id agent), Raised e)]
           | (Inr rn, s2) \<Rightarrow>
               (case list_messages pc tid s2 of
                  (Inl e, s3) \<Rightarrow>
                    fst (process_query pc agent tid q w) = Inl e
                    \<and> remote (snd (process_query pc agent tid q w)) = s3
                    \<and> issued_by (process_query pc agent tid q) w =
                        [(CreateMessage tid USER q, Returned),
                         (CreateAndProcessRun tid (agent_id agent), Returned),
                         (ListMessages tid, Raised e)]
                | (Inr page, s3) \<Rightarrow>
                    remote (snd (process_query pc agent tid q w)) = s3
                    \<and> issued_by (process_query pc agent tid q) w =
                        query_events tid (agent_id agent) q)))"
proof -
  have st: "stops_at_first_raise (query_calls tid (agent_id agent) q)
              (issued_by (process_query pc agent tid q) w)"
    by (rule process_query_stops)
  have a: "\<exists>final rest. issued_by (process_query pc agent tid q) w
             = (CreateMessage tid USER q, final) # rest"
    using st by (auto simp: query_calls_def stops_three)
  have b: "map fst (appends (issued_by (process_query pc agent tid q) w)) = [CreateMessage tid USER q]"
    using st by (rule aborted_query_filters(2))
  have "build_augmented_prompt q ctx \<noteq> q" for ctx
    using augmented_prompt_longer [of q ctx] by auto
  then have c: "\<forall>ctx. build_augmented_prompt q ctx \<noteq> q"
    by blast
  note d = process_query_effect [where pc = pc and tid = tid and q = q and w = w and agent = agent]
  show ?thesis
    using a b c d by (intro conjI) assumption+
qed

text \<open>
  On the test double whose run adds nothing, the thread holds after the query exactly the
  user message with the raw query as its text.
\<close>

theorem raw_query_is_appended_witness:
  "create_message (fake_service never silent) ''thread_1'' USER ''hello'' (remote start)
     = (Inr (Message USER (Some [text_block ''hello''])), [Message USER (Some [text_block ''hello''])])
   \<and> remote (snd (process_query (fake_service never silent) agent1 ''thread_1'' ''hello'' start))
     = [Message USER (Some [text_block ''hello''])]
   \<and> issued_by (process_query (fake_service never silent) agent1 ''thread_1'' ''hello'') start
     = query_events ''thread_1'' ''agent_1'' ''hello''
   \<and> build_augmented_prompt ''hello'' ''ctx'' \<noteq> ''hello''"
proof -
  let ?svc = "fake_service never silent"
  let ?u = "Message USER (Some [text_block ''hello''])"
  have h1: "create_message ?svc ''thread_1'' USER ''hello'' (remote start) = (Inr ?u, [?u])"
    by (simp add: fake_service_def guarded_def never_def start_def)
  have h2: "create_and_process_run ?svc ''thread_1'' (agent_id agent1) [?u]
              = (Inr (Run ''completed''), [?u])"
    by (simp add: fake_service_def guarded_def never_def silent_def)
  have h3: "list_messages ?svc ''thread_1'' [?u] = (Inr (MessagePage (Some [?u])), [?u])"
    by (simp add: fake_service_def guarded_def never_def)
  have "remote (snd (process_query ?svc agent1 ''thread_1'' ''hello'' start)) = [?u]
        \<and> issued_by (process_query ?svc agent1 ''thread_1'' ''hello'') start
            = query_events ''thread_1'' (agent_id agent1) ''hello''
        \<and> build_augmented_prompt ''hello'' ''ctx'' \<noteq> ''hello''"
    using raw_query_is_appended [of ?svc agent1 "''thread_1''" "''hello''" start]
    by (simp add: h1 h2 h3)
  then show ?thesis
    using h1 by (simp add: agent1_def)
qed

text \<open>
  Claim C2, as amended. For every query whose three remote calls return, the Query Driver
  takes the first message of the fetched list (the most recent one, for a service that
  lists newest first) and prints one \<^verbatim>\<open>Text:\<close> line for every text-type content block
  of that message, in order, not only for the first such block. The statement is for
  messages whose text-type blocks all carry their \<^verbatim>\<open>text\<close> entry.
\<close>

theorem every_text_block_of_first_message_is_printed:
  assumes "create_message pc tid USER q (remote w) = (Inr m, s1)"
    and "create_and_process_run pc tid (agent_id agent) s1 = (Inr rn, s2)"
    and "list_messages pc tid s2 = (Inr page, s3)"
    and "list_all has_payload (filter is_text_block (first_content page))"
  shows "fst (process_query pc agent tid q w) = Inr ()
       \<and> printed_by (process_query pc agent tid q) w =
           [nl @ ''Processing query: '' @ q, ''Responses:'']
           @ map text_line (filter is_text_block (first_content page))
           @ [separator_line]"
  using process_query_after_calls [OF assms] by simp

theorem every_text_block_witness:
  "create_message (fake_service never (canned [''first'', ''second''])) ''thread_1'' USER ''hello''
       (remote start)
     = (Inr (Message USER (Some [text_block ''hello''])), [Message USER (Some [text_block ''hello''])])
   \<and> create_and_process_run (fake_service never (canned [''first'', ''second''])) ''thread_1''
       (agent_id agent1) [Message USER (Some [text_block ''hello''])]
     = (Inr (Run ''completed''),
        [Message ASSISTANT (Some [text_block ''first'', text_block ''second'']),
         Message USER (Some [text_block ''hello''])])
   \<and> list_messages (fake_service never (canned [''first'', ''second''])) ''thread_1''
       [Message ASSISTANT (Some [text_block ''first'', text_block ''second'']),
        Message USER (Some [text_block ''hello''])]
     = (Inr (MessagePage (Some
          [Message ASSISTANT (Some [text_block ''first'', text_block ''second'']),
           Message USER (Some [text_block ''hello''])])),
        [Message ASSISTANT (Some [text_block ''first'', text_block ''second'']),
         Message USER (Some [text_block ''hello''])])
   \<and> list_all has_payload (filter is_text_block (first_content (MessagePage (Some
          [Message ASSISTANT (Some [text_block ''first'', text_block ''second'']),
           Message USER (Some [text_block ''hello''])]))))
   \<and> printed_by (process_query (fake_service never (canned [''first'', ''second'']))
                 agent1 ''thread_1'' ''hello'') start
     = [nl @ ''Processing query: hello'', ''Responses:'']
       @ map text_line [text_block ''first'', text_block ''second'']
       @ [separator_line]"
proof -
  let ?svc = "fake_service never (canned [''first'', ''second''])"
  let ?u = "Message USER (Some [text_block ''hello''])"
  let ?a = "Message ASSISTANT (Some [text_block ''first'', text_block ''second''])"
  have h1: "create_message ?svc ''thread_1'' USER ''hello'' (remote start) = (Inr ?u, [?u])"
    by (simp add: fake_service_def guarded_def never_def start_def)
  have h2: "create_and_process_run ?svc ''thread_1'' (agent_id agent1) [?u]
              = (Inr (Run ''completed''), [?a, ?u])"
    by (simp add: fake_service_def guarded_def never_def canned_def)
  have h3: "list_messages ?svc ''thread_1'' [?a, ?u] = (Inr (MessagePage (Some [?a, ?u])), [?a, ?u])"
    by (simp add: fake_service_def guarded_def never_def)
  have h4: "list_all has_payload (filter is_text_block (first_content (MessagePage (Some [?a, ?u]))))"
    by (simp add: first_content_def text_block_def is_text_block_def has_payload_def)
  show ?thesis
    using h1 h2 h3 h4 every_text_block_of_first_message_is_printed [OF h1 h2 h3 h4]
    by (simp add: first_content_def text_block_def is_text_block_def)
qed

text \<open>
  The claim as first stated (only the first text-type block is emitted) fails for a
  message with two text blocks: both are printed.
\<close>

theorem later_text_block_printed_counterexample:
  "printed_by (process_query (fake_service never (canned [''first'', ''second'']))
                 agent1 ''thread_1'' ''hello'') start
     = [nl @ ''Processing query: hello'', ''Responses:'', ''Text: first'', ''Text: second'',
        separator_line]"
  by (simp add: program_simps double_simps canned_def)

text \<open>
  Claim C7. For every query where the fetched message list is absent or empty, or the
  first message has no content or no text-type content block, the Query Driver prints no
  answer line (only the two headers and the separator), raises no error, and the loop
  goes on with the remaining queries.
\<close>

theorem no_text_block_prints_no_answer:
  assumes "create_message pc tid USER q (remote w) = (Inr m, s1)"
    and "create_and_process_run pc tid (agent_id agent) s1 = (Inr rn, s2)"
    and "list_messages pc tid s2 = (Inr page, s3)"
    and "page_data page = None \<or> page_data page = Some []
         \<or> (\<exists>first_msg older. page_data page = Some (first_msg # older)
              \<and> (msg_content first_msg = None
                 \<or> (\<exists>blocks. msg_content first_msg = Some blocks
                      \<and> filter is_text_block blocks = [])))"
  shows "fst (process_query pc agent tid q w) = Inr ()
       \<and> printed_by (process_query pc agent tid q) w =
           [nl @ ''Processing query: '' @ q, ''Responses:'', separator_line]
       \<and> run_queries pc agent tid (q # rest) w =
           run_queries pc agent tid rest (snd (process_query pc agent tid q w))"
proof -
  have none: "filter is_text_block (first_content page) = []"
    using assms(4) by (auto simp: first_content_def)
  then have all: "list_all has_payload (filter is_text_block (first_content page))"
    by simp
  have ok: "fst (process_query pc agent tid q w) = Inr ()"
    using process_query_after_calls(1) [OF assms(1-3) all] .
  have pr: "printed_by (process_query pc agent tid q) w =
           [nl @ ''Processing query: '' @ q, ''Responses:'', separator_line]"
    using process_query_after_calls(2) [OF assms(1-3) all] none by simp
  have "run_queries pc agent tid (q # rest) w =
           run_queries pc agent tid rest (snd (process_query pc agent tid q w))"
    using ok by (cases "process_query pc agent tid q w") auto
  with ok pr show ?thesis by simp
qed

theorem no_text_block_prints_no_answer_witness:
  "create_message (fake_service never picture) ''thread_1'' USER ''hello'' (remote start)
     = (Inr (Message USER (Some [text_block ''hello''])), [Message USER (Some [text_block ''hello''])])
   \<and> create_and_process_run (fake_service never picture) ''thread_1'' (agent_id agent1)
       [Message USER (Some [text_block ''hello''])]
     = (Inr (Run ''completed''),
        [Message ASSISTANT (Some [ContentBlock (Some ''image_file'') None]),
         Message USER (Some [text_block ''hello''])])
   \<and> list_messages (fake_service never picture) ''thread_1''
       [Message ASSISTANT (Some [ContentBlock (Some ''image_file'') None]),
        Message USER (Some [text_block ''hello''])]
     = (Inr (MessagePage (Some
          [Message ASSISTANT (Some [ContentBlock (Some ''image_file'') None]),
           Message USER (Some [text_block ''hello''])])),
        [Message ASSISTANT (Some [ContentBlock (Some ''image_file'') None]),
         Message USER (Some [text_block ''hello''])])
   \<and> fst (process_query (fake_service never picture) agent1 ''thread_1'' ''hello'' start) = Inr ()
   \<and> printed_by (process_query (fake_service never picture) agent1 ''thread_1'' ''hello'') start
     = [nl @ ''Processing query: hello'', ''Responses:'', separator_line]
   \<and> run_queries (fake_service never picture) agent1 ''thread_1'' [''hello'', ''next''] start
     = run_queries (fake_service never picture) agent1 ''thread_1'' [''next'']
         (snd (process_query (fake_service never picture) agent1 ''thread_1'' ''hello'' start))"
proof -
  let ?svc = "fake_service never picture"
  let ?u = "Message USER (Some [text_block ''hello''])"
  let ?a = "Message ASSISTANT (Some [ContentBlock (Some ''image_file'') None])"
  have h1: "create_message ?svc ''thread_1'' USER ''hello'' (remote start) = (Inr ?u, [?u])"
    by (simp add: fake_service_def guarded_def never_def start_def)
  have h2: "create_and_process_run ?svc ''thread_1'' (agent_id agent1) [?u]
              = (Inr (Run ''completed''), [?a, ?u])"
    by (simp add: fake_service_def guarded_def never_def picture_def)
  have h3: "list_messages ?svc ''thread_1'' [?a, ?u] = (Inr (MessagePage (Some [?a, ?u])), [?a, ?u])"
    by (simp add: fake_service_def guarded_def never_def)
  have h4: "page_data (MessagePage (Some [?a, ?u])) = None
            \<or> page_data (MessagePage (Some [?a, ?u])) = Some []
            \<or> (\<exists>first_msg older. page_data (MessagePage (Some [?a, ?u])) = Some (first_msg # older)
                 \<and> (msg_content first_msg = None
                    \<or> (\<exists>blocks. msg_content first_msg = Some blocks
                         \<and> filter is_text_block blocks = [])))"
    by (simp add: is_text_block_def)
  show ?thesis
    using h1 h2 h3 no_text_block_prints_no_answer [OF h1 h2 h3 h4, of "[''next'']"]
    by simp
qed

text \<open>
  Claim C9. The Query Driver reads neither the run it gets back nor the role of the
  fetched message. If the run returns, whatever its status, and the first message of the
  list is the user message just appended (whatever role it carries), the text of that
  message, the query itself, is printed as the answer.
\<close>

theorem user_message_echoed_as_answer:
  assumes "create_message pc tid USER q (remote w) = (Inr m, s1)"
    and "create_and_process_run pc tid (agent_id agent) s1 = (Inr rn, s2)"
    and "list_messages pc tid s2 =
           (Inr (MessagePage (Some (Message role (Some [text_block q]) # older))), s3)"
  shows "fst (process_query pc agent tid q w) = Inr ()
       \<and> printed_by (process_query pc agent tid q) w =
           [nl @ ''Processing query: '' @ q, ''Responses:'', ''Text: '' @ q, separator_line]"
proof -
  let ?page = "MessagePage (Some (Message role (Some [text_block q]) # older))"
  have all: "list_all has_payload (filter is_text_block (first_content ?page))"
    by (simp add: first_content_def text_block_def is_text_block_def has_payload_def)
  show ?thesis
    using process_query_after_calls [OF assms all]
    by (simp add: first_content_def text_block_def is_text_block_def text_line_def py_str_def)
qed

theorem user_message_echoed_as_answer_witness:
  "create_message (fake_service never silent) ''thread_1'' USER ''hello'' (remote start)
     = (Inr (Message USER (Some [text_block ''hello''])), [Message USER (Some [text_block ''hello''])])
   \<and> create_and_process_run (fake_service never silent) ''thread_1'' (agent_id agent1)
       [Message USER (Some [text_block ''hello''])]
     = (Inr (Run ''completed''), [Message USER (Some [text_block ''hello''])])
   \<and> list_messages (fake_service never silent) ''thread_1'' [Message USER (Some [text_block ''hello''])]
     = (Inr (MessagePage (Some (Message USER (Some [text_block ''hello'']) # []))),
        [Message USER (Some [text_block ''hello''])])
   \<and> fst (process_query (fake_service never silent) agent1 ''thread_1'' ''hello'' start) = Inr ()
   \<and> printed_by (process_query (fake_service never silent) agent1 ''thread_1'' ''hello'') start
     = [nl @ ''Processing query: hello'', ''Responses:'', ''Text: hello'', separator_line]"
proof -
  let ?svc = "fake_service never silent"
  let ?u = "Message USER (Some [text_block ''hello''])"
  have h1: "create_message ?svc ''thread_1'' USER ''hello'' (remote start) = (Inr ?u, [?u])"
    by (simp add: fake_service_def guarded_def never_def start_def)
  have h2: "create_and_process_run ?svc ''thread_1'' (agent_id agent1) [?u]
              = (Inr (Run ''completed''), [?u])"
    by (simp add: fake_service_def guarded_def never_def silent_def)
  have h3: "list_messages ?svc ''thread_1'' [?u] = (Inr (MessagePage (Some (?u # []))), [?u])"
    by (simp add: fake_service_def guarded_def never_def)
  show ?thesis
    using h1 h2 h3 user_message_echoed_as_answer [OF h1 h2 h3]
    by simp
qed

section \<open>Resource Provisioner\<close>

text \<open>
  Claim C8. The Resource Provisioner first uploads the local file, applying the upload to
  the remote state it was given; the creation of the vector store is requested only after
  the upload has returned, on the remote state the upload left, with the singleton list
  of the returned file id as its member file ids; the remote state after the step is the
  one that request leaves. When the provisioning step completes, exactly two creations
  have taken effect, the uploaded file and the vector store, and nothing was deleted: on
  the registry of remote resources the step adds exactly these two resources, the vector
  store holding the id of the file, to whatever existed before.
\<close>

theorem provisioning_uploads_then_indexes:
  "((\<exists>e. issued_by (provision pc) w = [(UploadFileAndPoll ''document.md'' AGENTS, Raised e)])
    \<or> (\<exists>uploaded s final.
          upload_file_and_poll pc ''document.md'' AGENTS (remote w) = (Inr uploaded, s)
          \<and> issued_by (provision pc) w =
              [(UploadFileAndPoll ''document.md'' AGENTS, Returned),
               (CreateVectorStoreAndPoll [file_id uploaded] ''vector_store'', final)]))
   \<and> (\<forall>uploaded store. fst (provision pc w) = Inr (uploaded, store) \<longrightarrow>
        issued_by (provision pc) w =
          [(UploadFileAndPoll ''document.md'' AGENTS, Returned),
           (CreateVectorStoreAndPoll [file_id uploaded] ''vector_store'', Returned)]
        \<and> created_resources (issued_by (provision pc) w) =
          [UploadFileAndPoll ''document.md'' AGENTS,
           CreateVectorStoreAndPoll [file_id uploaded] ''vector_store'']
        \<and> deletions (issued_by (provision pc) w) = [])
   \<and> (case upload_file_and_poll pc ''document.md'' AGENTS (remote w) of
        (Inl e, s1) \<Rightarrow>
          fst (provision pc w) = Inl e
          \<and> remote (snd (provision pc w)) = s1
          \<and> issued_by (provision pc) w = [(UploadFileAndPoll ''document.md'' AGENTS, Raised e)]
      | (Inr uploaded, s1) \<Rightarrow>
          (case create_vector_store_and_poll pc [file_id uploaded] ''vector_store'' s1 of
             (Inl e, s2) \<Rightarrow>
               fst (provision pc w) = Inl e
               \<and> remote (snd (provision pc w)) = s2
               \<and> issued_by (provision pc) w =
                   [(UploadFileAndPoll ''document.md'' AGENTS, Returned),
                    (CreateVectorStoreAndPoll [file_id uploaded] ''vector_store'', Raised e)]
           | (Inr store, s2) \<Rightarrow>
               fst (provision pc w) = Inr (uploaded, store)
               \<and> remote (snd (provision pc w)) = s2
               \<and> issued_by (provision pc) w =
                   [(UploadFileAndPoll ''document.md'' AGENTS, Returned),
                    (CreateVectorStoreAndPoll [file_id uploaded] ''vector_store'', Returned)]))
   \<and> fst (provision registry_service rw) = Inr (UploadedFile ''file_1'', VectorStore ''vs_1'')
   \<and> remote (snd (provision registry_service rw)) =
       StoreResource ''vs_1'' [''file_1''] # FileResource ''file_1'' # remote rw"
proof -
  have labels:
    "((\<exists>e. issued_by (provision pc) w = [(UploadFileAndPoll ''document.md'' AGENTS, Raised e)])
      \<or> (\<exists>uploaded s final.
            upload_file_and_poll pc ''document.md'' AGENTS (remote w) = (Inr uploaded, s)
            \<and> issued_by (provision pc) w =
                [(UploadFileAndPoll ''document.md'' AGENTS, Returned),
                 (CreateVectorStoreAndPoll [file_id uploaded] ''vector_store'', final)]))
     \<and> (\<forall>uploaded store. fst (provision pc w) = Inr (uploaded, store) \<longrightarrow>
          issued_by (provision pc) w =
            [(UploadFileAndPoll ''document.md'' AGENTS, Returned),
             (CreateVectorStoreAndPoll [file_id uploaded] ''vector_store'', Returned)]
          \<and> created_resources (issued_by (provision pc) w) =
            [UploadFileAndPoll ''document.md'' AGENTS,
             CreateVectorStoreAndPoll [file_id uploaded] ''vector_store'']
          \<and> deletions (issued_by (provision pc) w) = [])"
    by (auto simp: provision_def invoke_def issued_by_def outcome_of_def print_line_def Let_def
          created_resources_def deletions_def split: prod.splits sum.splits)
  note l1 = conjunct1 [OF labels] and l2 = conjunct2 [OF labels]
  note eff = provision_effect [where pc = pc and w = w]
  note r1 = conjunct1 [OF provision_registry [where rw = rw]]
    and r2 = conjunct2 [OF provision_registry [where rw = rw]]
  show ?thesis
    using l1 l2 eff r1 r2 by (intro conjI) assumption+
qed

theorem provisioning_uploads_then_indexes_witness:
  "fst (provision (fake_service never silent) start) = Inr (file1, store1)
   \<and> created_resources (issued_by (provision (fake_service never silent)) start)
     = [UploadFileAndPoll ''document.md'' AGENTS,
        CreateVectorStoreAndPoll [''file_1''] ''vector_store'']
   \<and> deletions (issued_by (provision (fake_service never silent)) start) = []
   \<and> remote (snd (provision registry_service empty_registry))
     = [StoreResource ''vs_1'' [''file_1''], FileResource ''file_1'']
   \<and> length (remote (snd (provision registry_service empty_registry))) = 2"
proof -
  have h: "fst (provision (fake_service never silent) start) = Inr (file1, store1)"
    by (simp add: provision_def program_simps double_simps)
  show ?thesis
    using h provisioning_uploads_then_indexes [of "fake_service never silent" start empty_registry]
    by (simp add: file1_def created_resources_def deletions_def empty_registry_def)
qed

section \<open>Prompt Augmenter: properties\<close>

text \<open>
  Claim C5. For every pair of strings (query, context) the output of the Prompt Augmenter
  contains the context, then the query, then the fixed fallback instruction, each of them
  verbatim: the output is a fixed header, the context, a fixed separator, the query, a
  fixed separator and the instruction, concatenated.
\<close>

theorem build_augmented_prompt_embeds_in_order:
  "\<exists>before between after.
     build_augmented_prompt query retrieval_context =
       before @ retrieval_context @ between @ query @ after @ fallback_instruction
     \<and> before = ''Retrieved Context:'' @ nl
     \<and> between = nl @ nl @ ''User Query: ''
     \<and> after = nl @ nl"
  by (simp add: build_augmented_prompt_def)

end
